theory Spec2Isabelle
  imports Complex_Main
begin

section \<open>JavaScript numbers\<close>

text \<open>
  The calculator (src/components/beam-load-calculator.tsx) computes with JavaScript
  numbers. They are modelled as exact real numbers extended with the values that
  decide the behaviour of the code at its edges: negative zero, the two infinities and
  NaN. \<open>Fin 0\<close> is the positive zero, \<open>NegZero\<close> the negative one. The rounding of
  binary64 arithmetic, overflow and underflow are not modelled: every finite result is
  the exact real result.
\<close>

datatype jsnum = Fin real | NegZero | PInf | NInf | NaN

fun is_nan :: "jsnum \<Rightarrow> bool" where
  "is_nan NaN = True"
| "is_nan _ = False"

fun is_inf :: "jsnum \<Rightarrow> bool" where
  "is_inf PInf = True"
| "is_inf NInf = True"
| "is_inf _ = False"

fun is_zero :: "jsnum \<Rightarrow> bool" where
  "is_zero (Fin r) = (r = 0)"
| "is_zero NegZero = True"
| "is_zero _ = False"

text \<open>The sign bit: set for negative numbers, for \<open>-0\<close> and for \<open>-Infinity\<close>.\<close>

fun is_neg :: "jsnum \<Rightarrow> bool" where
  "is_neg (Fin r) = (r < 0)"
| "is_neg NegZero = True"
| "is_neg NInf = True"
| "is_neg _ = False"

text \<open>A number that is neither NaN nor infinite, and its real value (\<open>-0\<close> has value 0).\<close>

fun is_fin :: "jsnum \<Rightarrow> bool" where
  "is_fin (Fin r) = True"
| "is_fin NegZero = True"
| "is_fin _ = False"

fun val :: "jsnum \<Rightarrow> real" where
  "val (Fin r) = r"
| "val _ = 0"

text \<open>The operands of the indeterminate quotient \<open>0/0\<close>: a zero of either sign, or NaN.\<close>

definition zero_or_nan :: "jsnum \<Rightarrow> bool" where
  "zero_or_nan a = (is_nan a \<or> is_zero a)"

text \<open>The finite number with a given sign bit and magnitude, and the signed infinity.\<close>

definition mk :: "bool \<Rightarrow> real \<Rightarrow> jsnum" where
  "mk neg m = (if m = 0 then (if neg then NegZero else Fin 0)
               else Fin (if neg then - m else m))"

definition inf_of :: "bool \<Rightarrow> jsnum" where
  "inf_of neg = (if neg then NInf else PInf)"

text \<open>Unary minus flips the sign bit.\<close>

fun js_neg :: "jsnum \<Rightarrow> jsnum" where
  "js_neg (Fin r) = (if r = 0 then NegZero else Fin (- r))"
| "js_neg NegZero = Fin 0"
| "js_neg PInf = NInf"
| "js_neg NInf = PInf"
| "js_neg NaN = NaN"

text \<open>
  Addition: NaN is contagious, opposite infinities give NaN, and a zero sum is \<open>+0\<close>
  unless both operands are \<open>-0\<close>.
\<close>

definition js_add :: "jsnum \<Rightarrow> jsnum \<Rightarrow> jsnum" where
  "js_add a b =
     (if is_nan a \<or> is_nan b then NaN
      else if is_inf a \<and> is_inf b then (if a = b then a else NaN)
      else if is_inf a then a
      else if is_inf b then b
      else if a = NegZero \<and> b = NegZero then NegZero
      else Fin (val a + val b))"

definition js_sub :: "jsnum \<Rightarrow> jsnum \<Rightarrow> jsnum" where
  "js_sub a b = js_add a (js_neg b)"

text \<open>Multiplication: the sign is the exclusive or of the signs; \<open>0 * Infinity\<close> is NaN.\<close>

definition js_mul :: "jsnum \<Rightarrow> jsnum \<Rightarrow> jsnum" where
  "js_mul a b =
     (if is_nan a \<or> is_nan b then NaN
      else if (is_inf a \<and> is_zero b) \<or> (is_zero a \<and> is_inf b) then NaN
      else if is_inf a \<or> is_inf b then inf_of (is_neg a \<noteq> is_neg b)
      else mk (is_neg a \<noteq> is_neg b) (\<bar>val a\<bar> * \<bar>val b\<bar>))"

text \<open>
  Division never raises: \<open>0/0\<close> and \<open>Infinity/Infinity\<close> are NaN, a nonzero number
  divided by a zero is a signed infinity.
\<close>

definition js_div :: "jsnum \<Rightarrow> jsnum \<Rightarrow> jsnum" where
  "js_div a b =
     (if is_nan a \<or> is_nan b then NaN
      else if is_inf a \<and> is_inf b then NaN
      else if is_zero a \<and> is_zero b then NaN
      else if is_inf a then inf_of (is_neg a \<noteq> is_neg b)
      else if is_inf b then mk (is_neg a \<noteq> is_neg b) 0
      else if is_zero b then inf_of (is_neg a \<noteq> is_neg b)
      else mk (is_neg a \<noteq> is_neg b) (\<bar>val a\<bar> / \<bar>val b\<bar>))"

text \<open>
  \<open>Math.pow\<close> at the natural exponents the code uses (2, 3 and 4), as repeated
  multiplication.
\<close>

fun Math_pow :: "jsnum \<Rightarrow> nat \<Rightarrow> jsnum" where
  "Math_pow b 0 = Fin 1"
| "Math_pow b (Suc n) = js_mul b (Math_pow b n)"

text \<open>\<open>Math.PI\<close> is the binary64 number nearest to \<open>\<pi>\<close>, a rational.\<close>

definition Math_PI :: jsnum where
  "Math_PI = Fin (884279719003555 / 281474976710656)"

text \<open>Comparisons: false as soon as an operand is NaN; the two zeros are equal.\<close>

definition js_le :: "jsnum \<Rightarrow> jsnum \<Rightarrow> bool" where
  "js_le a b =
     (\<not> is_nan a \<and> \<not> is_nan b \<and>
      (a = NInf \<or> b = PInf \<or> (\<not> is_inf a \<and> \<not> is_inf b \<and> val a \<le> val b)))"

definition js_lt :: "jsnum \<Rightarrow> jsnum \<Rightarrow> bool" where
  "js_lt a b = (\<not> is_nan a \<and> \<not> is_nan b \<and> \<not> js_le b a)"

definition js_ge :: "jsnum \<Rightarrow> jsnum \<Rightarrow> bool" where
  "js_ge a b = js_le b a"

definition js_gt :: "jsnum \<Rightarrow> jsnum \<Rightarrow> bool" where
  "js_gt a b = js_lt b a"

text \<open>\<open>Math.min\<close> of two numbers: NaN if either is NaN, and \<open>-0\<close> is below \<open>+0\<close>.\<close>

definition Math_min :: "jsnum \<Rightarrow> jsnum \<Rightarrow> jsnum" where
  "Math_min a b =
     (if is_nan a \<or> is_nan b then NaN
      else if is_zero a \<and> is_zero b then (if is_neg a \<or> is_neg b then NegZero else Fin 0)
      else if js_le a b then a else b)"

text \<open>
  \<open>Number(v.toFixed(d))\<close>: NaN and the infinities print as themselves and are read
  back; a magnitude of at least \<open>10^21\<close> is printed in full and read back unchanged;
  otherwise the magnitude is rounded to \<open>d\<close> decimals, a tie going up, and the sign is
  put back (so a small negative number becomes \<open>-0\<close>, while \<open>-0\<close> itself prints as
  \<open>0.00\<close>).
\<close>

fun Number_toFixed :: "nat \<Rightarrow> jsnum \<Rightarrow> jsnum" where
  "Number_toFixed d (Fin r) =
     (if 10 ^ 21 \<le> \<bar>r\<bar> then Fin r
      else mk (r < 0) (real_of_int \<lfloor>\<bar>r\<bar> * 10 ^ d + 1 / 2\<rfloor> / 10 ^ d))"
| "Number_toFixed d NegZero = Fin 0"
| "Number_toFixed d PInf = PInf"
| "Number_toFixed d NInf = NInf"
| "Number_toFixed d NaN = NaN"

section \<open>The component state\<close>

text \<open>The entries of \<open>standardMaterials\<close> and its four keys.\<close>

record material_props =
  yieldStrength :: jsnum
  elasticModulus :: jsnum
  density :: jsnum
  poissonsRatio :: jsnum
  thermalExpansion :: jsnum

datatype material_key = ASTM_A36 | ASTM_A992 | ASTM_A572_Grade_50 | Custom

fun standardMaterials :: "material_key \<Rightarrow> material_props" where
  "standardMaterials ASTM_A36 =
     \<lparr>yieldStrength = Fin 250, elasticModulus = Fin 200, density = Fin 7850,
      poissonsRatio = Fin (3 / 10), thermalExpansion = Fin 12\<rparr>"
| "standardMaterials ASTM_A992 =
     \<lparr>yieldStrength = Fin 345, elasticModulus = Fin 200, density = Fin 7850,
      poissonsRatio = Fin (3 / 10), thermalExpansion = Fin 12\<rparr>"
| "standardMaterials ASTM_A572_Grade_50 =
     \<lparr>yieldStrength = Fin 345, elasticModulus = Fin 200, density = Fin 7850,
      poissonsRatio = Fin (3 / 10), thermalExpansion = Fin 12\<rparr>"
| "standardMaterials Custom =
     \<lparr>yieldStrength = Fin 0, elasticModulus = Fin 0, density = Fin 0,
      poissonsRatio = Fin 0, thermalExpansion = Fin 0\<rparr>"

text \<open>
  The \<open>useState\<close> cells of \<open>BeamLoadCalculatorComponent\<close> that the two calculations
  read. The three selectors are strings, compared with \<open>===\<close> and \<open>switch\<close>.
\<close>

record state =
  beamType :: string
  beamCrossSection :: string
  beamLength :: jsnum
  leftSupport :: jsnum
  rightSupport :: jsnum
  loadType :: string
  loadMagnitude :: jsnum
  loadStartPosition :: jsnum
  loadEndPosition :: jsnum
  material :: material_key
  customMaterial :: material_props
  width :: jsnum
  height :: jsnum
  flangeWidth :: jsnum
  flangeThickness :: jsnum
  webThickness :: jsnum
  diameter :: jsnum
  beamDensity :: jsnum

text \<open>The initial values of the cells.\<close>

definition initial_state :: state where
  "initial_state =
     \<lparr>beamType = ''Simple Beam'', beamCrossSection = ''Rectangular'',
      beamLength = Fin 1000, leftSupport = Fin 0, rightSupport = Fin 1000,
      loadType = ''Point Load'', loadMagnitude = Fin 1000,
      loadStartPosition = Fin 500, loadEndPosition = Fin 500,
      material = ASTM_A36, customMaterial = standardMaterials Custom,
      width = Fin 100, height = Fin 200, flangeWidth = Fin 100,
      flangeThickness = Fin 10, webThickness = Fin 6, diameter = Fin 100,
      beamDensity = Fin 7850\<rparr>"

section \<open>calculateResults\<close>

text \<open>The conversions from millimetres to metres at the head of \<open>calculateResults\<close>.\<close>

definition beamLengthM :: "state \<Rightarrow> jsnum" where
  "beamLengthM st = js_div (beamLength st) (Fin 1000)"

definition leftSupportM :: "state \<Rightarrow> jsnum" where
  "leftSupportM st = js_div (leftSupport st) (Fin 1000)"

definition rightSupportM :: "state \<Rightarrow> jsnum" where
  "rightSupportM st = js_div (rightSupport st) (Fin 1000)"

definition loadStartPositionM :: "state \<Rightarrow> jsnum" where
  "loadStartPositionM st = js_div (loadStartPosition st) (Fin 1000)"

definition loadEndPositionM :: "state \<Rightarrow> jsnum" where
  "loadEndPositionM st = js_div (loadEndPosition st) (Fin 1000)"

definition widthM :: "state \<Rightarrow> jsnum" where
  "widthM st = js_div (width st) (Fin 1000)"

definition heightM :: "state \<Rightarrow> jsnum" where
  "heightM st = js_div (height st) (Fin 1000)"

definition flangeWidthM :: "state \<Rightarrow> jsnum" where
  "flangeWidthM st = js_div (flangeWidth st) (Fin 1000)"

definition flangeThicknessM :: "state \<Rightarrow> jsnum" where
  "flangeThicknessM st = js_div (flangeThickness st) (Fin 1000)"

definition webThicknessM :: "state \<Rightarrow> jsnum" where
  "webThicknessM st = js_div (webThickness st) (Fin 1000)"

definition diameterM :: "state \<Rightarrow> jsnum" where
  "diameterM st = js_div (diameter st) (Fin 1000)"

text \<open>
  The first \<open>switch\<close> on \<open>beamCrossSection\<close>: the volume of the beam. The last branch
  is the \<open>default\<close> of the switch.
\<close>

definition beamVolume_of :: "state \<Rightarrow> jsnum" where
  "beamVolume_of st =
     (if beamCrossSection st = ''Rectangular'' then
        js_mul (js_mul (widthM st) (heightM st)) (beamLengthM st)
      else if beamCrossSection st = ''I Beam'' then
        js_mul (js_add (js_mul (js_mul (Fin 2) (flangeWidthM st)) (flangeThicknessM st))
                       (js_mul (js_sub (heightM st) (js_mul (Fin 2) (flangeThicknessM st)))
                               (webThicknessM st)))
               (beamLengthM st)
      else if beamCrossSection st = ''C Channel'' then
        js_mul (js_add (js_mul (js_mul (Fin 2) (flangeWidthM st)) (flangeThicknessM st))
                       (js_mul (js_sub (heightM st) (js_mul (Fin 2) (flangeThicknessM st)))
                               (webThicknessM st)))
               (beamLengthM st)
      else if beamCrossSection st = ''Circular'' then
        js_mul (js_mul Math_PI (Math_pow (js_div (diameterM st) (Fin 2)) 2)) (beamLengthM st)
      else
        js_mul (js_mul (widthM st) (heightM st)) (beamLengthM st))"

definition beamWeightN_of :: "state \<Rightarrow> jsnum" where
  "beamWeightN_of st = js_mul (js_mul (beamVolume_of st) (beamDensity st)) (Fin (981 / 100))"

text \<open>
  The centre of gravity: \<open>totalMoment\<close> and \<open>totalForce\<close> start from the weight of the
  beam and are updated in the branch of the load type (in neither branch for a load
  type that is not one of the two strings).
\<close>

definition totalMoment_of :: "state \<Rightarrow> jsnum" where
  "totalMoment_of st =
     (let totalMoment = js_mul (beamWeightN_of st) (js_div (beamLengthM st) (Fin 2)) in
      if loadType st = ''Point Load'' then
        js_add totalMoment (js_mul (loadMagnitude st) (loadStartPositionM st))
      else if loadType st = ''Uniform Load'' then
        (let loadLength = js_sub (loadEndPositionM st) (loadStartPositionM st);
             totalLoad = js_mul (loadMagnitude st) loadLength
         in js_add totalMoment
              (js_mul totalLoad (js_add (loadStartPositionM st) (js_div loadLength (Fin 2)))))
      else totalMoment)"

definition totalForce_of :: "state \<Rightarrow> jsnum" where
  "totalForce_of st =
     (let totalForce = beamWeightN_of st in
      if loadType st = ''Point Load'' then js_add totalForce (loadMagnitude st)
      else if loadType st = ''Uniform Load'' then
        (let loadLength = js_sub (loadEndPositionM st) (loadStartPositionM st);
             totalLoad = js_mul (loadMagnitude st) loadLength
         in js_add totalForce totalLoad)
      else totalForce)"

definition centerOfGravity_of :: "state \<Rightarrow> jsnum" where
  "centerOfGravity_of st = js_div (totalMoment_of st) (totalForce_of st)"

definition materialProps :: "state \<Rightarrow> material_props" where
  "materialProps st =
     (if material st = Custom then customMaterial st else standardMaterials (material st))"

text \<open>
  The second \<open>switch\<close> on \<open>beamCrossSection\<close>: area, moment of inertia and section
  modulus, with the locals \<open>I_flange\<close>, \<open>I_web\<close>, \<open>I_flange_c\<close> and \<open>I_web_c\<close> of the
  source.
\<close>

definition I_flange :: "state \<Rightarrow> jsnum" where
  "I_flange st =
     js_add (js_div (js_mul (flangeWidthM st) (Math_pow (flangeThicknessM st) 3)) (Fin 6))
            (js_mul (js_mul (js_mul (Fin 2) (flangeWidthM st)) (flangeThicknessM st))
                    (Math_pow (js_div (js_sub (heightM st) (flangeThicknessM st)) (Fin 2)) 2))"

definition I_web :: "state \<Rightarrow> jsnum" where
  "I_web st =
     js_div (js_mul (webThicknessM st)
                    (Math_pow (js_sub (heightM st) (js_mul (Fin 2) (flangeThicknessM st))) 3))
            (Fin 12)"

definition I_flange_c :: "state \<Rightarrow> jsnum" where
  "I_flange_c st =
     js_add (js_div (js_mul (flangeWidthM st) (Math_pow (flangeThicknessM st) 3)) (Fin 12))
            (js_mul (js_mul (flangeWidthM st) (flangeThicknessM st))
                    (Math_pow (js_div (js_sub (heightM st) (flangeThicknessM st)) (Fin 2)) 2))"

definition I_web_c :: "state \<Rightarrow> jsnum" where
  "I_web_c st =
     js_div (js_mul (webThicknessM st)
                    (Math_pow (js_sub (heightM st) (js_mul (Fin 2) (flangeThicknessM st))) 3))
            (Fin 12)"

definition area_of :: "state \<Rightarrow> jsnum" where
  "area_of st =
     (if beamCrossSection st = ''Rectangular'' then js_mul (widthM st) (heightM st)
      else if beamCrossSection st = ''I Beam'' then
        js_add (js_mul (js_mul (Fin 2) (flangeWidthM st)) (flangeThicknessM st))
               (js_mul (js_sub (heightM st) (js_mul (Fin 2) (flangeThicknessM st)))
                       (webThicknessM st))
      else if beamCrossSection st = ''C Channel'' then
        js_add (js_mul (js_mul (Fin 2) (flangeWidthM st)) (flangeThicknessM st))
               (js_mul (js_sub (heightM st) (js_mul (Fin 2) (flangeThicknessM st)))
                       (webThicknessM st))
      else if beamCrossSection st = ''Circular'' then
        js_mul Math_PI (Math_pow (js_div (diameterM st) (Fin 2)) 2)
      else js_mul (widthM st) (heightM st))"

definition momentOfInertia_of :: "state \<Rightarrow> jsnum" where
  "momentOfInertia_of st =
     (if beamCrossSection st = ''Rectangular'' then
        js_div (js_mul (widthM st) (Math_pow (heightM st) 3)) (Fin 12)
      else if beamCrossSection st = ''I Beam'' then
        js_add (js_mul (Fin 2) (I_flange st)) (I_web st)
      else if beamCrossSection st = ''C Channel'' then
        js_add (js_mul (Fin 2) (I_flange_c st)) (I_web_c st)
      else if beamCrossSection st = ''Circular'' then
        js_div (js_mul Math_PI (Math_pow (diameterM st) 4)) (Fin 64)
      else js_div (js_mul (widthM st) (Math_pow (heightM st) 3)) (Fin 12))"

definition sectionModulus_of :: "state \<Rightarrow> jsnum" where
  "sectionModulus_of st =
     (if beamCrossSection st = ''Rectangular'' then
        js_div (momentOfInertia_of st) (js_div (heightM st) (Fin 2))
      else if beamCrossSection st = ''I Beam'' then
        js_div (momentOfInertia_of st) (js_div (heightM st) (Fin 2))
      else if beamCrossSection st = ''C Channel'' then
        js_div (momentOfInertia_of st) (js_div (heightM st) (Fin 2))
      else if beamCrossSection st = ''Circular'' then
        js_div (momentOfInertia_of st) (js_div (diameterM st) (Fin 2))
      else js_div (momentOfInertia_of st) (js_div (heightM st) (Fin 2)))"

text \<open>
  The two running maxima are declared with \<open>let\<close>, set to 0, and assigned nowhere in
  \<open>calculateResults\<close>; the stresses are computed from them.
\<close>

definition maxShearForce_of :: "state \<Rightarrow> jsnum" where
  "maxShearForce_of st = Fin 0"

definition maxBendingMoment_of :: "state \<Rightarrow> jsnum" where
  "maxBendingMoment_of st = Fin 0"

definition maxNormalStress_of :: "state \<Rightarrow> jsnum" where
  "maxNormalStress_of st =
     js_div (js_div (maxBendingMoment_of st) (sectionModulus_of st)) (Fin 1000000)"

definition maxShearStress_of :: "state \<Rightarrow> jsnum" where
  "maxShearStress_of st =
     js_div (js_div (js_mul (Fin (3 / 2)) (maxShearForce_of st)) (area_of st)) (Fin 1000000)"

text \<open>The object passed to \<open>setResults\<close>, and the value passed to \<open>setBeamWeight\<close>.\<close>

record results =
  maxShearForce :: jsnum
  maxBendingMoment :: jsnum
  maxNormalStress :: jsnum
  maxShearStress :: jsnum
  safetyFactor :: jsnum
  centerOfGravity :: jsnum
  momentOfInertia :: jsnum
  sectionModulus :: jsnum

definition calculateResults :: "state \<Rightarrow> results" where
  "calculateResults st =
     \<lparr>maxShearForce = Number_toFixed 2 (maxShearForce_of st),
      maxBendingMoment = Number_toFixed 2 (maxBendingMoment_of st),
      maxNormalStress = Number_toFixed 2 (maxNormalStress_of st),
      maxShearStress = Number_toFixed 2 (maxShearStress_of st),
      safetyFactor =
        Number_toFixed 2 (js_div (yieldStrength (materialProps st)) (maxNormalStress_of st)),
      centerOfGravity = Number_toFixed 3 (centerOfGravity_of st),
      momentOfInertia = Number_toFixed 6 (momentOfInertia_of st),
      sectionModulus = Number_toFixed 6 (sectionModulus_of st)\<rparr>"

definition beamWeight :: "state \<Rightarrow> jsnum" where
  "beamWeight st = Number_toFixed 2 (beamWeightN_of st)"

section \<open>calculateDiagrams\<close>

text \<open>
  The body of the sampling loop, in the source's order: the reactions, then shear and
  moment at the position \<open>x\<close>. All lengths are the cells' values in millimetres; nothing
  is converted here.
\<close>

definition numPoints :: nat where
  "numPoints = 100"

definition dx :: "state \<Rightarrow> jsnum" where
  "dx st = js_div (beamLength st) (js_sub (Fin (real numPoints)) (Fin 1))"

definition reactions :: "state \<Rightarrow> jsnum \<times> jsnum" where
  "reactions st =
     (if beamType st = ''Simple Beam'' then
        (if loadType st = ''Point Load'' then
           (js_div (js_mul (loadMagnitude st) (js_sub (rightSupport st) (loadStartPosition st)))
                   (js_sub (rightSupport st) (leftSupport st)),
            js_div (js_mul (loadMagnitude st) (js_sub (loadStartPosition st) (leftSupport st)))
                   (js_sub (rightSupport st) (leftSupport st)))
         else if loadType st = ''Uniform Load'' then
           (let loadLength = js_sub (loadEndPosition st) (loadStartPosition st);
                totalLoad = js_mul (loadMagnitude st) loadLength;
                loadCentroid = js_div (js_add (loadStartPosition st) (loadEndPosition st)) (Fin 2)
            in (js_div (js_mul totalLoad (js_sub (rightSupport st) loadCentroid))
                       (js_sub (rightSupport st) (leftSupport st)),
                js_div (js_mul totalLoad (js_sub loadCentroid (leftSupport st)))
                       (js_sub (rightSupport st) (leftSupport st))))
         else (Fin 0, Fin 0))
      else if beamType st = ''Cantilever Beam'' then
        (if loadType st = ''Point Load'' then (loadMagnitude st, Fin 0)
         else if loadType st = ''Uniform Load'' then
           (js_mul (loadMagnitude st) (js_sub (loadEndPosition st) (loadStartPosition st)), Fin 0)
         else (Fin 0, Fin 0))
      else (Fin 0, Fin 0))"

definition R1 :: "state \<Rightarrow> jsnum" where
  "R1 st = fst (reactions st)"

definition R2 :: "state \<Rightarrow> jsnum" where
  "R2 st = snd (reactions st)"

definition shear_at :: "state \<Rightarrow> jsnum \<Rightarrow> jsnum" where
  "shear_at st x =
     (if beamType st = ''Simple Beam'' then
        (let shear = Fin 0;
             shear = (if js_ge x (leftSupport st) then js_add shear (R1 st) else shear);
             shear = (if js_ge x (rightSupport st) then js_sub shear (R2 st) else shear)
         in if loadType st = ''Point Load'' \<and> js_ge x (loadStartPosition st) then
              js_sub shear (loadMagnitude st)
            else if loadType st = ''Uniform Load'' \<and> js_ge x (loadStartPosition st) then
              (let loadedLength = Math_min (js_sub x (loadStartPosition st))
                                    (js_sub (loadEndPosition st) (loadStartPosition st))
               in js_sub shear (js_mul (loadMagnitude st) loadedLength))
            else shear)
      else if beamType st = ''Cantilever Beam'' then
        (if loadType st = ''Point Load'' then
           (if js_le x (loadStartPosition st) then js_neg (loadMagnitude st) else Fin 0)
         else if loadType st = ''Uniform Load'' then
           (let loadLength = js_sub (loadEndPosition st) (loadStartPosition st) in
            if js_le x (loadStartPosition st) then
              js_mul (js_neg (loadMagnitude st)) loadLength
            else if js_gt x (loadStartPosition st) \<and> js_lt x (loadEndPosition st) then
              (let remainingLength = js_sub (loadEndPosition st) x
               in js_mul (js_neg (loadMagnitude st)) remainingLength)
            else Fin 0)
         else Fin 0)
      else Fin 0)"

definition moment_at :: "state \<Rightarrow> jsnum \<Rightarrow> jsnum" where
  "moment_at st x =
     (if beamType st = ''Simple Beam'' then
        (let moment = js_mul (R1 st) (js_sub x (leftSupport st));
             moment = (if js_gt x (rightSupport st)
                       then js_sub moment (js_mul (R2 st) (js_sub x (rightSupport st)))
                       else moment)
         in if loadType st = ''Point Load'' \<and> js_gt x (loadStartPosition st) then
              js_sub moment (js_mul (loadMagnitude st) (js_sub x (loadStartPosition st)))
            else if loadType st = ''Uniform Load'' \<and> js_gt x (loadStartPosition st) then
              (let loadedLength = Math_min (js_sub x (loadStartPosition st))
                                    (js_sub (loadEndPosition st) (loadStartPosition st));
                   loadCentroid = js_add (loadStartPosition st) (js_div loadedLength (Fin 2))
               in js_sub moment
                    (js_mul (js_mul (loadMagnitude st) loadedLength) (js_sub x loadCentroid)))
            else moment)
      else if beamType st = ''Cantilever Beam'' then
        (if loadType st = ''Point Load'' then
           (if js_le x (loadStartPosition st) then
              js_mul (js_neg (loadMagnitude st))
                     (js_sub (beamLength st) (loadStartPosition st))
            else Fin 0)
         else if loadType st = ''Uniform Load'' then
           (let loadLength = js_sub (loadEndPosition st) (loadStartPosition st) in
            if js_le x (loadStartPosition st) then
              js_mul (js_mul (js_neg (loadMagnitude st)) loadLength)
                     (js_sub (beamLength st)
                        (js_div (js_add (loadStartPosition st) (loadEndPosition st)) (Fin 2)))
            else if js_gt x (loadStartPosition st) \<and> js_lt x (loadEndPosition st) then
              (let remainingLength = js_sub (loadEndPosition st) x
               in js_div (js_mul (js_mul (js_neg (loadMagnitude st)) remainingLength)
                                 remainingLength)
                         (Fin 2))
            else Fin 0)
         else Fin 0)
      else Fin 0)"

text \<open>
  A sample \<open>{x, y}\<close> is a pair; \<open>position_at\<close> is the \<open>x\<close> of iteration \<open>i\<close>, the
  product \<open>i * dx\<close>. As everywhere, the product and the quotient in \<open>dx\<close> are the exact
  ones; their binary64 values can differ from them in the last place.
\<close>

type_synonym sample = "jsnum \<times> jsnum"

definition position_at :: "state \<Rightarrow> nat \<Rightarrow> jsnum" where
  "position_at st i = js_mul (Fin (real i)) (dx st)"

definition shear_sample :: "state \<Rightarrow> nat \<Rightarrow> sample" where
  "shear_sample st i =
     (Number_toFixed 2 (position_at st i), Number_toFixed 2 (shear_at st (position_at st i)))"

definition moment_sample :: "state \<Rightarrow> nat \<Rightarrow> sample" where
  "moment_sample st i =
     (Number_toFixed 2 (position_at st i), Number_toFixed 2 (moment_at st (position_at st i)))"

text \<open>
  The \<open>for\<close> loop from \<open>i\<close> to \<open>numPoints\<close>, pushing one sample on each array, and the
  two arrays that \<open>calculateDiagrams\<close> hands to \<open>setShearForceData\<close> and
  \<open>setBendingMomentData\<close>.
\<close>

function diagrams_loop :: "state \<Rightarrow> nat \<Rightarrow> sample list \<times> sample list \<Rightarrow> sample list \<times> sample list"
  where
  "diagrams_loop st i (shearForce, bendingMoment) =
     (if i < numPoints then
        diagrams_loop st (Suc i)
          (shearForce @ [shear_sample st i], bendingMoment @ [moment_sample st i])
      else (shearForce, bendingMoment))"
  by pat_completeness auto
termination
  by (relation "measure (\<lambda>(st, i, acc). numPoints - i)") auto

declare diagrams_loop.simps [simp del]

definition calculateDiagrams :: "state \<Rightarrow> sample list \<times> sample list" where
  "calculateDiagrams st = diagrams_loop st 0 ([], [])"

definition shearForceData :: "state \<Rightarrow> sample list" where
  "shearForceData st = fst (calculateDiagrams st)"

definition bendingMomentData :: "state \<Rightarrow> sample list" where
  "bendingMomentData st = snd (calculateDiagrams st)"

section \<open>Arithmetic on finite numbers\<close>

text \<open>
  On numbers that are neither NaN nor infinite the operations are those of the reals,
  read through \<open>val\<close>; a division needs a divisor other than zero.
\<close>

lemma val_mk: "val (mk s m) = (if s then - m else m)"
  by (simp add: mk_def)

lemma is_fin_mk: "is_fin (mk s m)"
  by (simp add: mk_def)

lemma is_fin_neg: "is_fin a \<Longrightarrow> is_fin (js_neg a)"
  by (cases a) simp_all

lemma val_neg: "val (js_neg a) = - val a"
  by (cases a) simp_all

lemma is_fin_add: "is_fin a \<Longrightarrow> is_fin b \<Longrightarrow> is_fin (js_add a b)"
  by (cases a; cases b) (simp_all add: js_add_def)

lemma val_add: "is_fin a \<Longrightarrow> is_fin b \<Longrightarrow> val (js_add a b) = val a + val b"
  by (cases a; cases b) (simp_all add: js_add_def)

lemma is_fin_sub: "is_fin a \<Longrightarrow> is_fin b \<Longrightarrow> is_fin (js_sub a b)"
  by (simp add: js_sub_def is_fin_add is_fin_neg)

lemma val_sub: "is_fin a \<Longrightarrow> is_fin b \<Longrightarrow> val (js_sub a b) = val a - val b"
  by (simp add: js_sub_def val_add is_fin_neg val_neg)

lemma is_fin_mul: "is_fin a \<Longrightarrow> is_fin b \<Longrightarrow> is_fin (js_mul a b)"
  by (cases a; cases b) (simp_all add: js_mul_def is_fin_mk)

lemma val_mul: "is_fin a \<Longrightarrow> is_fin b \<Longrightarrow> val (js_mul a b) = val a * val b"
  by (cases a; cases b) (auto simp: js_mul_def val_mk abs_if)

lemma is_fin_div: "is_fin a \<Longrightarrow> is_fin b \<Longrightarrow> val b \<noteq> 0 \<Longrightarrow> is_fin (js_div a b)"
  by (cases a; cases b) (simp_all add: js_div_def is_fin_mk)

lemma val_div: "is_fin a \<Longrightarrow> is_fin b \<Longrightarrow> val b \<noteq> 0 \<Longrightarrow> val (js_div a b) = val a / val b"
  by (cases a; cases b) (auto simp: js_div_def val_mk abs_if)

lemma is_fin_pow: "is_fin a \<Longrightarrow> is_fin (Math_pow a n)"
  by (induction n) (simp_all add: is_fin_mul)

lemma val_pow: "is_fin a \<Longrightarrow> val (Math_pow a n) = val a ^ n"
  by (induction n) (simp_all add: val_mul is_fin_pow)

text \<open>Zero divided by anything, and what becomes of a signed zero afterwards.\<close>

lemma zero_div: "js_div (Fin 0) b = (if is_nan b \<or> is_zero b then NaN else mk (is_neg b) 0)"
  by (cases b) (simp_all add: js_div_def mk_def)

lemma mk_zero_div_pos: "0 < c \<Longrightarrow> js_div (mk s 0) (Fin c) = mk s 0"
  by (simp add: js_div_def mk_def)

lemma nan_div: "js_div NaN b = NaN"
  by (simp add: js_div_def)

lemma toFixed_mk_zero: "Number_toFixed d (mk s 0) = Fin 0"
  by (simp add: mk_def)

text \<open>Division by a zero, and the infinities under \<open>toFixed\<close>.\<close>

lemma div_by_zero:
  "is_zero z \<Longrightarrow>
   js_div y z = (if is_nan y \<or> is_zero y then NaN else inf_of (is_neg y \<noteq> is_neg z))"
  by (cases y; cases z) (auto simp: js_div_def)

lemma toFixed_inf_of: "Number_toFixed d (inf_of s) = inf_of s"
  by (simp add: inf_of_def)

text \<open>Zeros and NaN are closed under the operations that build the centre of gravity.\<close>

lemma zn_zero: "is_zero a \<Longrightarrow> zero_or_nan a"
  by (simp add: zero_or_nan_def)

lemma zn_fin_zero: "is_fin a \<Longrightarrow> zero_or_nan a \<Longrightarrow> is_zero a"
  by (cases a) (simp_all add: zero_or_nan_def)

lemma zn_mul_l: "zero_or_nan a \<Longrightarrow> zero_or_nan (js_mul a b)"
  by (cases a; cases b) (auto simp: zero_or_nan_def js_mul_def mk_def)

lemma zn_mul_r: "zero_or_nan b \<Longrightarrow> zero_or_nan (js_mul a b)"
  by (cases a; cases b) (auto simp: zero_or_nan_def js_mul_def mk_def)

lemma zn_add: "zero_or_nan a \<Longrightarrow> zero_or_nan b \<Longrightarrow> zero_or_nan (js_add a b)"
  by (cases a; cases b) (auto simp: zero_or_nan_def js_add_def)

lemma zn_div: "zero_or_nan a \<Longrightarrow> zero_or_nan b \<Longrightarrow> js_div a b = NaN"
  by (cases a; cases b) (auto simp: zero_or_nan_def js_div_def)

lemma zn_sub_self: "zero_or_nan (js_sub a a)"
  by (cases a) (auto simp: zero_or_nan_def js_sub_def js_add_def)

lemma zn_sub_zeros: "is_zero a \<Longrightarrow> is_zero b \<Longrightarrow> zero_or_nan (js_sub a b)"
  by (cases a; cases b) (auto simp: zero_or_nan_def js_sub_def js_add_def)

lemma zero_div_pos: "is_zero a \<Longrightarrow> 0 < c \<Longrightarrow> is_zero (js_div a (Fin c))"
  by (cases a) (auto simp: js_div_def mk_def)

lemma is_zero_fin: "is_zero a \<Longrightarrow> is_fin a"
  by (cases a) simp_all

text \<open>A quotient by a zero is never finite; equal finite numbers differ by a zero.\<close>

lemma div_zero_not_fin: "is_zero z \<Longrightarrow> \<not> is_fin (js_div y z)"
  by (cases y; cases z) (auto simp: js_div_def inf_of_def)

lemma sub_equal_zero: "is_fin a \<Longrightarrow> is_fin b \<Longrightarrow> val a = val b \<Longrightarrow> is_zero (js_sub a b)"
  by (cases a; cases b) (auto simp: js_sub_def js_add_def)

text \<open>The conversion from millimetres to metres keeps a finite number finite.\<close>

lemma is_fin_mm: "is_fin a \<Longrightarrow> is_fin (js_div a (Fin 1000))"
  by (simp add: is_fin_div)

lemma val_mm: "is_fin a \<Longrightarrow> val (js_div a (Fin 1000)) = val a / 1000"
  by (simp add: val_div)

text \<open>A real identity behind the midspan case of the reactions.\<close>

lemma midspan_half:
  fixes P l r a L :: real
  assumes "r \<noteq> l" and "l + r = L" and "a = L / 2"
  shows "P * (r - a) / (r - l) = P / 2 \<and> P * (a - l) / (r - l) = P / 2"
proof -
  from assms(2,3) have e: "r - a = (r - l) / 2" "a - l = (r - l) / 2"
    by (simp_all add: field_simps)
  have h: "P * (d / 2) / d = P / 2" if "d \<noteq> 0" for d :: real
    using that by simp
  from assms(1) have "r - l \<noteq> 0" by simp
  from h [OF this] show ?thesis unfolding e by simp
qed

text \<open>The unfolding sets used to evaluate the calculations at concrete cells.\<close>

lemmas state_defs = initial_state_def widthM_def heightM_def beamLengthM_def flangeWidthM_def
  flangeThicknessM_def webThicknessM_def diameterM_def loadStartPositionM_def loadEndPositionM_def

lemmas js_defs = js_div_def js_mul_def js_add_def js_sub_def mk_def inf_of_def

lemmas fin_simps = is_fin_add is_fin_sub is_fin_mul is_fin_div is_fin_neg is_fin_pow
  val_add val_sub val_mul val_div val_neg val_pow

section \<open>The reported maxima\<close>

text \<open>
  Claim C1, as the code has it. The fields \<open>maxShearForce\<close> and \<open>maxBendingMoment\<close> of
  the object built by \<open>calculateResults\<close> are 0 for every state. The two stresses are
  computed from them by a division: \<open>maxNormalStress\<close> is 0 when the section modulus is
  a number other than zero and NaN when it is zero or NaN; \<open>maxShearStress\<close> is 0 when
  the area is a number other than zero and NaN when it is zero or NaN.
\<close>

theorem C1_maxima_zero:
  "maxShearForce (calculateResults st) = Fin 0 \<and>
   maxBendingMoment (calculateResults st) = Fin 0 \<and>
   maxNormalStress (calculateResults st) =
     (if is_nan (sectionModulus_of st) \<or> is_zero (sectionModulus_of st) then NaN else Fin 0) \<and>
   maxShearStress (calculateResults st) =
     (if is_nan (area_of st) \<or> is_zero (area_of st) then NaN else Fin 0)"
proof -
  have a: "maxShearForce (calculateResults st) = Fin 0"
    by (simp add: calculateResults_def maxShearForce_of_def mk_def)
  have b: "maxBendingMoment (calculateResults st) = Fin 0"
    by (simp add: calculateResults_def maxBendingMoment_of_def mk_def)
  have c: "maxNormalStress (calculateResults st) =
     (if is_nan (sectionModulus_of st) \<or> is_zero (sectionModulus_of st) then NaN else Fin 0)"
    by (simp add: calculateResults_def maxNormalStress_of_def maxBendingMoment_of_def zero_div
        mk_zero_div_pos toFixed_mk_zero nan_div)
  have m: "js_mul (Fin (3 / 2)) (Fin 0) = Fin 0"
    by (simp add: js_mul_def mk_def)
  have d: "maxShearStress (calculateResults st) =
     (if is_nan (area_of st) \<or> is_zero (area_of st) then NaN else Fin 0)"
    by (simp add: calculateResults_def maxShearStress_of_def maxShearForce_of_def m zero_div
        mk_zero_div_pos toFixed_mk_zero nan_div)
  from a b c d show ?thesis by simp
qed

text \<open>At the initial cells all four fields are 0.\<close>

theorem C1_maxima_zero_witness:
  "maxShearForce (calculateResults initial_state) = Fin 0 \<and>
   maxBendingMoment (calculateResults initial_state) = Fin 0 \<and>
   maxNormalStress (calculateResults initial_state) = Fin 0 \<and>
   maxShearStress (calculateResults initial_state) = Fin 0"
  using C1_maxima_zero [of initial_state]
  by (simp add: sectionModulus_of_def momentOfInertia_of_def
      area_of_def state_defs js_defs eval_nat_numeral)

text \<open>
  With the width set to 0 the rectangular section has area 0 and section modulus 0, and
  both stresses are \<open>0/0\<close>: they are NaN, not 0.
\<close>

theorem C1_stresses_nan_counterexample:
  "maxNormalStress (calculateResults (initial_state\<lparr>width := Fin 0\<rparr>)) = NaN \<and>
   maxShearStress (calculateResults (initial_state\<lparr>width := Fin 0\<rparr>)) = NaN"
  by (simp add: calculateResults_def maxNormalStress_of_def maxShearStress_of_def
      maxBendingMoment_of_def maxShearForce_of_def sectionModulus_of_def momentOfInertia_of_def
      area_of_def state_defs js_defs eval_nat_numeral)

section \<open>The reactions\<close>

text \<open>
  Claim C2. For a simply supported beam with a point load, with finite cells and two
  distinct support positions, the reactions computed in \<open>calculateDiagrams\<close> are finite
  numbers with the values \<open>R1 = P (rightSupport - loadPos) / (rightSupport - leftSupport)\<close>
  and \<open>R2 = P (loadPos - leftSupport) / (rightSupport - leftSupport)\<close>. When moreover the
  supports are symmetric about midspan and the load stands at midspan, both reactions
  are half the magnitude.
\<close>

theorem C2_simply_supported_point_reactions:
  assumes "beamType st = ''Simple Beam''" and "loadType st = ''Point Load''"
    and "is_fin (loadMagnitude st)" and "is_fin (loadStartPosition st)"
    and "is_fin (leftSupport st)" and "is_fin (rightSupport st)"
    and "val (rightSupport st) \<noteq> val (leftSupport st)"
  shows "is_fin (R1 st) \<and> is_fin (R2 st) \<and>
    val (R1 st) = val (loadMagnitude st) * (val (rightSupport st) - val (loadStartPosition st))
                    / (val (rightSupport st) - val (leftSupport st)) \<and>
    val (R2 st) = val (loadMagnitude st) * (val (loadStartPosition st) - val (leftSupport st))
                    / (val (rightSupport st) - val (leftSupport st)) \<and>
    (is_fin (beamLength st) \<and>
     val (leftSupport st) + val (rightSupport st) = val (beamLength st) \<and>
     val (loadStartPosition st) = val (beamLength st) / 2 \<longrightarrow>
       val (R1 st) = val (loadMagnitude st) / 2 \<and> val (R2 st) = val (loadMagnitude st) / 2)"
proof -
  let ?P = "val (loadMagnitude st)" and ?a = "val (loadStartPosition st)"
  let ?l = "val (leftSupport st)" and ?r = "val (rightSupport st)"
  have d: "is_fin (js_sub (rightSupport st) (leftSupport st))"
    "val (js_sub (rightSupport st) (leftSupport st)) \<noteq> 0"
    using assms by (simp_all add: fin_simps)
  have r1: "R1 st =
      js_div (js_mul (loadMagnitude st) (js_sub (rightSupport st) (loadStartPosition st)))
             (js_sub (rightSupport st) (leftSupport st))"
    and r2: "R2 st =
      js_div (js_mul (loadMagnitude st) (js_sub (loadStartPosition st) (leftSupport st)))
             (js_sub (rightSupport st) (leftSupport st))"
    using assms(1,2) by (simp_all add: R1_def R2_def reactions_def)
  have f1: "is_fin (R1 st)" and f2: "is_fin (R2 st)"
    unfolding r1 r2 using assms d by (simp_all add: fin_simps)
  have v1: "val (R1 st) = ?P * (?r - ?a) / (?r - ?l)"
    unfolding r1 using assms d by (simp add: fin_simps)
  have v2: "val (R2 st) = ?P * (?a - ?l) / (?r - ?l)"
    unfolding r2 using assms d by (simp add: fin_simps)
  have m: "?P * (?r - ?a) / (?r - ?l) = ?P / 2 \<and> ?P * (?a - ?l) / (?r - ?l) = ?P / 2"
    if "?l + ?r = val (beamLength st)" "?a = val (beamLength st) / 2"
    using midspan_half [OF assms(7) that] .
  from f1 f2 v1 v2 m show ?thesis by simp
qed

text \<open>
  The initial cells: supports at 0 and 1000, a load of 1000 at 500 on a beam of length
  1000. Both reactions are 500.
\<close>

theorem C2_simply_supported_point_reactions_witness:
  "beamType initial_state = ''Simple Beam'' \<and> loadType initial_state = ''Point Load'' \<and>
   val (rightSupport initial_state) \<noteq> val (leftSupport initial_state) \<and>
   val (leftSupport initial_state) + val (rightSupport initial_state) =
     val (beamLength initial_state) \<and>
   val (loadStartPosition initial_state) = val (beamLength initial_state) / 2 \<and>
   val (R1 initial_state) = 500 \<and> val (R2 initial_state) = 500"
  using C2_simply_supported_point_reactions [of initial_state] by (simp add: initial_state_def)

text \<open>
  Claim C3, as the code has it. The reactions balance the applied load alone: with
  finite cells, for a simply supported beam with distinct supports and for a
  cantilever, \<open>R1 + R2\<close> is the magnitude of a point load and
  \<open>magnitude * (loadEndPosition - loadStartPosition)\<close> for a uniform load. The weight
  of the beam, which only \<open>calculateResults\<close> computes, is no part of them.
\<close>

theorem C3_reactions_sum_to_applied_load:
  assumes "is_fin (loadMagnitude st)" and "is_fin (loadStartPosition st)"
    and "is_fin (loadEndPosition st)"
    and "is_fin (leftSupport st)" and "is_fin (rightSupport st)"
    and "beamType st = ''Simple Beam'' \<and> val (rightSupport st) \<noteq> val (leftSupport st) \<or>
         beamType st = ''Cantilever Beam''"
  shows "is_fin (R1 st) \<and> is_fin (R2 st) \<and>
    (loadType st = ''Point Load'' \<longrightarrow> val (R1 st) + val (R2 st) = val (loadMagnitude st)) \<and>
    (loadType st = ''Uniform Load'' \<longrightarrow>
       val (R1 st) + val (R2 st) =
         val (loadMagnitude st) * (val (loadEndPosition st) - val (loadStartPosition st)))"
proof -
  let ?P = "val (loadMagnitude st)" and ?a = "val (loadStartPosition st)"
  let ?e = "val (loadEndPosition st)"
  let ?l = "val (leftSupport st)" and ?r = "val (rightSupport st)"
  from assms(6) show ?thesis
  proof
    assume s: "beamType st = ''Simple Beam'' \<and> ?r \<noteq> ?l"
    then have d: "is_fin (js_sub (rightSupport st) (leftSupport st))"
      "val (js_sub (rightSupport st) (leftSupport st)) \<noteq> 0" "?r - ?l \<noteq> 0"
      using assms by (simp_all add: fin_simps)
    have f: "is_fin (R1 st) \<and> is_fin (R2 st)"
      using s assms(1-5) d(1,2) by (simp add: R1_def R2_def reactions_def Let_def fin_simps)
    have p: "val (R1 st) + val (R2 st) = ?P" if "loadType st = ''Point Load''"
    proof -
      have "val (R1 st) + val (R2 st) = ?P * (?r - ?a) / (?r - ?l) + ?P * (?a - ?l) / (?r - ?l)"
        using s that assms(1-5) d(1,2) by (simp add: R1_def R2_def reactions_def fin_simps)
      also have "\<dots> = ?P * (?r - ?l) / (?r - ?l)"
        by (simp add: add_divide_distrib [symmetric] algebra_simps)
      also have "\<dots> = ?P" using d(3) by simp
      finally show ?thesis .
    qed
    have u: "val (R1 st) + val (R2 st) = ?P * (?e - ?a)" if "loadType st = ''Uniform Load''"
    proof -
      have "val (R1 st) + val (R2 st) =
          ?P * (?e - ?a) * (?r - (?a + ?e) / 2) / (?r - ?l) +
          ?P * (?e - ?a) * ((?a + ?e) / 2 - ?l) / (?r - ?l)"
        using s that assms(1-5) d(1,2)
        by (simp add: R1_def R2_def reactions_def Let_def fin_simps)
      also have "\<dots> = ?P * (?e - ?a) * (?r - ?l) / (?r - ?l)"
        by (simp add: add_divide_distrib [symmetric] algebra_simps)
      also have "\<dots> = ?P * (?e - ?a)" using d(3) by simp
      finally show ?thesis .
    qed
    from f p u show ?thesis by simp
  next
    assume c: "beamType st = ''Cantilever Beam''"
    then show ?thesis
      using assms(1-5) by (simp add: R1_def R2_def reactions_def fin_simps)
  qed
qed

text \<open>At the initial cells the reactions sum to the load of 1000.\<close>

theorem C3_reactions_sum_to_applied_load_witness:
  "beamType initial_state = ''Simple Beam'' \<and> loadType initial_state = ''Point Load'' \<and>
   val (rightSupport initial_state) \<noteq> val (leftSupport initial_state) \<and>
   val (R1 initial_state) + val (R2 initial_state) = 1000"
  using C3_reactions_sum_to_applied_load [of initial_state] by (simp add: initial_state_def)

text \<open>
  At the same cells the beam weighs 1540.17 (volume 0.02, density 7850, times 9.81), so
  the load plus the weight is 2540.17 while the reactions sum to 1000.
\<close>

theorem C3_self_weight_counterexample:
  "js_add (R1 initial_state) (R2 initial_state) = Fin 1000 \<and>
   js_add (loadMagnitude initial_state) (beamWeightN_of initial_state) = Fin (254017 / 100)"
  by (simp add: R1_def R2_def reactions_def beamWeightN_of_def beamVolume_of_def state_defs
      js_defs)

section \<open>The safety factor and the centre of gravity\<close>

text \<open>
  Claim C6, as the code has it. When \<open>maxNormalStress\<close> is a zero, the safety factor is
  the quotient of the yield strength by that zero, and nothing else is signalled: it is
  NaN when the yield strength is zero or NaN, and otherwise an infinity whose sign is
  that of the yield strength against that of the zero.
\<close>

theorem C6_safety_factor_at_zero_stress:
  assumes "is_zero (maxNormalStress_of st)"
  shows "safetyFactor (calculateResults st) =
     (if is_nan (yieldStrength (materialProps st)) \<or> is_zero (yieldStrength (materialProps st))
      then NaN
      else inf_of (is_neg (yieldStrength (materialProps st)) \<noteq> is_neg (maxNormalStress_of st)))"
  using assms by (simp add: calculateResults_def div_by_zero toFixed_inf_of)

lemma maxNormalStress_of_initial: "maxNormalStress_of initial_state = Fin 0"
  by (simp add: maxNormalStress_of_def maxBendingMoment_of_def sectionModulus_of_def
      momentOfInertia_of_def state_defs js_defs eval_nat_numeral)

text \<open>At the initial cells (A36 steel, yield strength 250) the safety factor is \<open>+Infinity\<close>.\<close>

theorem C6_safety_factor_at_zero_stress_witness:
  "is_zero (maxNormalStress_of initial_state) \<and>
   safetyFactor (calculateResults initial_state) = PInf"
proof -
  have h: "is_zero (maxNormalStress_of initial_state)"
    by (simp add: maxNormalStress_of_initial)
  have y: "yieldStrength (materialProps initial_state) = Fin 250"
    by (simp add: materialProps_def initial_state_def)
  from C6_safety_factor_at_zero_stress [OF h] h show ?thesis
    by (simp add: maxNormalStress_of_initial y inf_of_def)
qed

text \<open>
  With the material set to \<open>Custom\<close>, whose yield strength starts at 0, the stress is 0
  and the safety factor stored in the results is NaN.
\<close>

theorem C6_safety_factor_nan_counterexample:
  "maxNormalStress_of (initial_state\<lparr>material := Custom\<rparr>) = Fin 0 \<and>
   safetyFactor (calculateResults (initial_state\<lparr>material := Custom\<rparr>)) = NaN"
  by (simp add: calculateResults_def materialProps_def maxNormalStress_of_def
      maxBendingMoment_of_def sectionModulus_of_def momentOfInertia_of_def state_defs js_defs
      eval_nat_numeral)

text \<open>
  Claim C10. When the density is a zero and the load adds no force (its magnitude is a
  zero, or it is a uniform load whose end position equals its start position),
  \<open>totalMoment\<close> and \<open>totalForce\<close> are each a zero or NaN, zeros when the cells they are
  computed from are finite, so that \<open>centerOfGravity\<close> is NaN and NaN is what the results
  hold.
\<close>

theorem C10_center_of_gravity_nan:
  assumes d: "is_zero (beamDensity st)"
    and l: "is_zero (loadMagnitude st) \<or>
            (loadType st = ''Uniform Load'' \<and>
             (loadEndPosition st = loadStartPosition st \<or>
              (is_zero (loadEndPosition st) \<and> is_zero (loadStartPosition st))))"
  shows "zero_or_nan (totalMoment_of st) \<and> zero_or_nan (totalForce_of st) \<and>
         (is_fin (beamVolume_of st) \<and> is_fin (beamLength st) \<and> is_fin (loadMagnitude st) \<and>
          is_fin (loadStartPosition st) \<and> is_fin (loadEndPosition st) \<longrightarrow>
            is_zero (totalMoment_of st) \<and> is_zero (totalForce_of st)) \<and>
         centerOfGravity_of st = NaN \<and> centerOfGravity (calculateResults st) = NaN"
proof -
  have w: "zero_or_nan (beamWeightN_of st)"
    unfolding beamWeightN_of_def using d by (intro zn_mul_l zn_mul_r zn_zero)
  have tm0: "zero_or_nan (js_mul (beamWeightN_of st) (js_div (beamLengthM st) (Fin 2)))"
    using w by (rule zn_mul_l)
  have p: "is_zero (loadMagnitude st) \<Longrightarrow> zero_or_nan (js_mul (loadMagnitude st) b)" for b
    by (intro zn_mul_l zn_zero)
  have ll: "zero_or_nan (js_mul (loadMagnitude st)
              (js_sub (loadEndPositionM st) (loadStartPositionM st)))"
    if u: "loadType st = ''Uniform Load''"
  proof -
    from l u consider "is_zero (loadMagnitude st)" | "loadEndPosition st = loadStartPosition st"
      | "is_zero (loadEndPosition st) \<and> is_zero (loadStartPosition st)" by blast
    then show ?thesis
    proof cases
      case 1 then show ?thesis by (rule p)
    next
      case 2
      then have "loadEndPositionM st = loadStartPositionM st"
        by (simp add: loadEndPositionM_def loadStartPositionM_def)
      then show ?thesis by (simp add: zn_mul_r zn_sub_self)
    next
      case 3
      then have "zero_or_nan (js_sub (loadEndPositionM st) (loadStartPositionM st))"
        by (simp add: loadEndPositionM_def loadStartPositionM_def zn_sub_zeros zero_div_pos)
      then show ?thesis by (rule zn_mul_r)
    qed
  qed
  have lp: "is_zero (loadMagnitude st)" if "loadType st = ''Point Load''"
    using l that by auto
  have tm: "zero_or_nan (totalMoment_of st)"
  proof (cases "loadType st = ''Point Load''")
    case True
    then show ?thesis
      by (simp add: totalMoment_of_def Let_def zn_add tm0 p lp)
  next
    case False
    show ?thesis
    proof (cases "loadType st = ''Uniform Load''")
      case True
      then show ?thesis
        by (simp add: totalMoment_of_def Let_def zn_add tm0 zn_mul_l ll)
    next
      case False
      with \<open>loadType st \<noteq> ''Point Load''\<close> show ?thesis
        by (simp add: totalMoment_of_def Let_def tm0)
    qed
  qed
  have tf: "zero_or_nan (totalForce_of st)"
  proof (cases "loadType st = ''Point Load''")
    case True
    then show ?thesis
      by (simp add: totalForce_of_def Let_def zn_add w zn_zero lp)
  next
    case False
    show ?thesis
    proof (cases "loadType st = ''Uniform Load''")
      case True
      then show ?thesis
        by (simp add: totalForce_of_def Let_def zn_add w ll)
    next
      case False
      with \<open>loadType st \<noteq> ''Point Load''\<close> show ?thesis
        by (simp add: totalForce_of_def Let_def w)
    qed
  qed
  have fin: "is_fin (totalMoment_of st) \<and> is_fin (totalForce_of st)"
    if "is_fin (beamVolume_of st)" "is_fin (beamLength st)" "is_fin (loadMagnitude st)"
      "is_fin (loadStartPosition st)" "is_fin (loadEndPosition st)"
  proof -
    have bw: "is_fin (beamWeightN_of st)"
      using that(1) d by (simp add: beamWeightN_of_def is_fin_mul is_zero_fin)
    have m: "is_fin (beamLengthM st)" "is_fin (loadStartPositionM st)"
      "is_fin (loadEndPositionM st)"
      using that by (simp_all add: state_defs is_fin_div)
    show ?thesis
      using bw m that(3)
      by (simp add: totalMoment_of_def totalForce_of_def Let_def is_fin_add is_fin_sub
          is_fin_mul is_fin_div)
  qed
  have c: "centerOfGravity_of st = NaN"
    unfolding centerOfGravity_of_def using tm tf by (rule zn_div)
  with tm tf fin show ?thesis by (simp add: calculateResults_def zn_fin_zero)
qed

text \<open>The initial cells with density 0 and magnitude 0: both totals are 0 and the result is NaN.\<close>

theorem C10_center_of_gravity_nan_witness:
  "is_zero (beamDensity (initial_state\<lparr>beamDensity := Fin 0, loadMagnitude := Fin 0\<rparr>)) \<and>
   is_zero (loadMagnitude (initial_state\<lparr>beamDensity := Fin 0, loadMagnitude := Fin 0\<rparr>)) \<and>
   totalMoment_of (initial_state\<lparr>beamDensity := Fin 0, loadMagnitude := Fin 0\<rparr>) = Fin 0 \<and>
   totalForce_of (initial_state\<lparr>beamDensity := Fin 0, loadMagnitude := Fin 0\<rparr>) = Fin 0 \<and>
   centerOfGravity (calculateResults
     (initial_state\<lparr>beamDensity := Fin 0, loadMagnitude := Fin 0\<rparr>)) = NaN"
proof -
  let ?s = "initial_state\<lparr>beamDensity := Fin 0, loadMagnitude := Fin 0\<rparr>"
  have t: "totalMoment_of ?s = Fin 0" "totalForce_of ?s = Fin 0"
    by (simp_all add: totalMoment_of_def totalForce_of_def beamWeightN_of_def beamVolume_of_def
        state_defs js_defs)
  have h: "is_zero (beamDensity ?s)" "is_zero (loadMagnitude ?s)"
    by (simp_all add: initial_state_def)
  from C10_center_of_gravity_nan [of ?s] h t show ?thesis by simp
qed

section \<open>The cross-section switch\<close>

text \<open>
  Claim C9. For a cross-section string that is none of the four the switches name, both
  switches take their \<open>default\<close> branch: the volume, the area, the moment of inertia and
  the section modulus are those of the rectangular section, and the results and the
  beam weight are the ones computed for \<open>Rectangular\<close>. Nothing is rejected.
\<close>

theorem C9_unrecognised_shape_is_rectangular:
  assumes "beamCrossSection st \<notin> {''Rectangular'', ''I Beam'', ''C Channel'', ''Circular''}"
  shows "beamVolume_of st = js_mul (js_mul (widthM st) (heightM st)) (beamLengthM st) \<and>
         area_of st = js_mul (widthM st) (heightM st) \<and>
         momentOfInertia_of st = js_div (js_mul (widthM st) (Math_pow (heightM st) 3)) (Fin 12) \<and>
         sectionModulus_of st = js_div (momentOfInertia_of st) (js_div (heightM st) (Fin 2)) \<and>
         calculateResults st = calculateResults (st\<lparr>beamCrossSection := ''Rectangular''\<rparr>) \<and>
         beamWeight st = beamWeight (st\<lparr>beamCrossSection := ''Rectangular''\<rparr>)"
proof -
  let ?r = "st\<lparr>beamCrossSection := ''Rectangular''\<rparr>"
  from assms have n: "beamCrossSection st \<noteq> ''Rectangular''" "beamCrossSection st \<noteq> ''I Beam''"
    "beamCrossSection st \<noteq> ''C Channel''" "beamCrossSection st \<noteq> ''Circular''"
    by simp_all
  have v: "beamVolume_of st = js_mul (js_mul (widthM st) (heightM st)) (beamLengthM st)"
    using n by (simp add: beamVolume_of_def)
  have a: "area_of st = js_mul (widthM st) (heightM st)"
    using n by (simp add: area_of_def)
  have i: "momentOfInertia_of st = js_div (js_mul (widthM st) (Math_pow (heightM st) 3)) (Fin 12)"
    using n by (simp add: momentOfInertia_of_def)
  have z: "sectionModulus_of st = js_div (momentOfInertia_of st) (js_div (heightM st) (Fin 2))"
    using n by (simp add: sectionModulus_of_def)
  have conv: "widthM ?r = widthM st" "heightM ?r = heightM st" "beamLengthM ?r = beamLengthM st"
    "loadStartPositionM ?r = loadStartPositionM st" "loadEndPositionM ?r = loadEndPositionM st"
    by (simp_all add: state_defs)
  have v': "beamVolume_of ?r = beamVolume_of st"
    by (simp add: v) (simp add: beamVolume_of_def conv)
  have a': "area_of ?r = area_of st"
    by (simp add: a) (simp add: area_of_def conv)
  have i': "momentOfInertia_of ?r = momentOfInertia_of st"
    by (simp add: i) (simp add: momentOfInertia_of_def conv)
  have z': "sectionModulus_of ?r = sectionModulus_of st"
    by (simp add: z) (simp add: sectionModulus_of_def conv i')
  have w': "beamWeightN_of ?r = beamWeightN_of st"
    by (simp add: beamWeightN_of_def v')
  have c': "centerOfGravity_of ?r = centerOfGravity_of st"
    by (simp add: centerOfGravity_of_def totalMoment_of_def totalForce_of_def w' conv Let_def
        cong del: if_weak_cong)
  have s': "maxNormalStress_of ?r = maxNormalStress_of st"
    "maxShearStress_of ?r = maxShearStress_of st"
    by (simp_all add: maxNormalStress_of_def maxShearStress_of_def maxBendingMoment_of_def
        maxShearForce_of_def z' a')
  have m': "materialProps ?r = materialProps st"
    by (simp add: materialProps_def)
  have r: "calculateResults st = calculateResults ?r"
    by (simp add: calculateResults_def s' m' c' i' z' maxShearForce_of_def maxBendingMoment_of_def)
  have b: "beamWeight st = beamWeight ?r"
    by (simp add: beamWeight_def w')
  from v a i z r b show ?thesis by simp
qed

text \<open>The initial cells with the shape \<open>Triangular\<close>: the inertia is that of the 100 by 200 rectangle.\<close>

theorem C9_unrecognised_shape_is_rectangular_witness:
  "''Triangular'' \<notin> {''Rectangular'', ''I Beam'', ''C Channel'', ''Circular''} \<and>
   momentOfInertia_of (initial_state\<lparr>beamCrossSection := ''Triangular''\<rparr>) = Fin (1 / 15000) \<and>
   calculateResults (initial_state\<lparr>beamCrossSection := ''Triangular''\<rparr>) =
     calculateResults (initial_state\<lparr>beamCrossSection := ''Rectangular''\<rparr>)"
  using C9_unrecognised_shape_is_rectangular [of "initial_state\<lparr>beamCrossSection := ''Triangular''\<rparr>"]
  by (simp add: state_defs js_defs eval_nat_numeral)

section \<open>The sampling loop\<close>

text \<open>The loop pushes the samples of the positions \<open>0\<close> to \<open>numPoints - 1\<close>, in order.\<close>

lemma diagrams_loop_eq:
  "diagrams_loop st i (sf, bm) =
     (sf @ map (shear_sample st) [i..<numPoints], bm @ map (moment_sample st) [i..<numPoints])"
proof (induction st i "(sf, bm)" arbitrary: sf bm rule: diagrams_loop.induct)
  case (1 st i sf bm)
  show ?case
  proof (cases "i < numPoints")
    case True
    then have u: "[i..<numPoints] = i # [Suc i..<numPoints]"
      by (simp add: upt_conv_Cons)
    from True "1.hyps" [OF True] show ?thesis
      by (subst diagrams_loop.simps) (simp add: u)
  next
    case False
    then show ?thesis
      by (subst diagrams_loop.simps) simp
  qed
qed

lemma shearForceData_eq: "shearForceData st = map (shear_sample st) [0..<numPoints]"
  by (simp add: shearForceData_def calculateDiagrams_def diagrams_loop_eq)

lemma bendingMomentData_eq: "bendingMomentData st = map (moment_sample st) [0..<numPoints]"
  by (simp add: bendingMomentData_def calculateDiagrams_def diagrams_loop_eq)

lemma data_length: "length (shearForceData st) = 100" "length (bendingMomentData st) = 100"
  by (simp_all add: shearForceData_eq bendingMomentData_eq numPoints_def)

lemma shearForceData_nth: "i < numPoints \<Longrightarrow> shearForceData st ! i = shear_sample st i"
  by (simp add: shearForceData_eq)

lemma bendingMomentData_nth: "i < numPoints \<Longrightarrow> bendingMomentData st ! i = moment_sample st i"
  by (simp add: bendingMomentData_eq)














section \<open>Coincident supports\<close>

text \<open>
  Claim C8, as the code has it. A simply supported configuration whose two supports
  coincide is not rejected: \<open>calculateDiagrams\<close> divides by the zero distance between
  them, so with a point or a uniform load neither reaction is a finite number (each is
  an infinity or NaN), and the two series of 100 samples are produced all the same.
\<close>

theorem C8_coincident_supports_not_rejected:
  assumes "beamType st = ''Simple Beam''"
    and "loadType st = ''Point Load'' \<or> loadType st = ''Uniform Load''"
    and "is_fin (leftSupport st)" and "is_fin (rightSupport st)"
    and "val (rightSupport st) = val (leftSupport st)"
  shows "\<not> is_fin (R1 st) \<and> \<not> is_fin (R2 st) \<and>
         length (shearForceData st) = 100 \<and> length (bendingMomentData st) = 100"
proof -
  have z: "is_zero (js_sub (rightSupport st) (leftSupport st))"
    using assms(3-5) by (simp add: sub_equal_zero)
  from assms(2) have "\<not> is_fin (R1 st) \<and> \<not> is_fin (R2 st)"
  proof
    assume "loadType st = ''Point Load''"
    then show ?thesis
      using assms(1) z by (simp add: R1_def R2_def reactions_def div_zero_not_fin)
  next
    assume "loadType st = ''Uniform Load''"
    then show ?thesis
      using assms(1) z by (simp add: R1_def R2_def reactions_def Let_def div_zero_not_fin)
  qed
  then show ?thesis by (simp add: data_length)
qed

text \<open>Both supports at 0, the other cells initial.\<close>

theorem C8_coincident_supports_not_rejected_witness:
  "beamType (initial_state\<lparr>rightSupport := Fin 0\<rparr>) = ''Simple Beam'' \<and>
   loadType (initial_state\<lparr>rightSupport := Fin 0\<rparr>) = ''Point Load'' \<and>
   val (rightSupport (initial_state\<lparr>rightSupport := Fin 0\<rparr>)) =
     val (leftSupport (initial_state\<lparr>rightSupport := Fin 0\<rparr>)) \<and>
   \<not> is_fin (R1 (initial_state\<lparr>rightSupport := Fin 0\<rparr>)) \<and>
   \<not> is_fin (R2 (initial_state\<lparr>rightSupport := Fin 0\<rparr>)) \<and>
   length (shearForceData (initial_state\<lparr>rightSupport := Fin 0\<rparr>)) = 100"
  using C8_coincident_supports_not_rejected [of "initial_state\<lparr>rightSupport := Fin 0\<rparr>"]
  by (simp add: initial_state_def)

text \<open>
  At those cells the reactions are \<open>-Infinity\<close> and \<open>+Infinity\<close>, the shear stored for
  the second sample is \<open>-Infinity\<close> and the moment stored for the first sample is NaN.
\<close>

theorem C8_infinite_reactions_counterexample:
  "reactions (initial_state\<lparr>rightSupport := Fin 0\<rparr>) = (NInf, PInf) \<and>
   shearForceData (initial_state\<lparr>rightSupport := Fin 0\<rparr>) ! 1 = (Fin (101 / 10), NInf) \<and>
   bendingMomentData (initial_state\<lparr>rightSupport := Fin 0\<rparr>) ! 0 = (Fin 0, NaN)"
proof -
  let ?s = "initial_state\<lparr>rightSupport := Fin 0\<rparr>"
  have r: "reactions ?s = (NInf, PInf)"
    by (simp add: reactions_def initial_state_def js_defs)
  have d: "dx ?s = Fin (1000 / 99)"
    by (simp add: dx_def numPoints_def initial_state_def js_defs)
  have p: "position_at ?s 0 = Fin 0" "position_at ?s 1 = Fin (1000 / 99)"
    by (simp_all add: position_at_def d js_defs)
  have sa: "shear_at ?s (Fin (1000 / 99)) = NInf"
    by (simp add: shear_at_def R1_def R2_def reactions_def Let_def initial_state_def js_defs
        js_ge_def js_le_def)
  have ma: "moment_at ?s (Fin 0) = NaN"
    by (simp add: moment_at_def R1_def R2_def reactions_def Let_def initial_state_def js_defs
        js_gt_def js_lt_def js_le_def)
  have s: "shear_sample ?s 1 = (Fin (101 / 10), NInf)"
    by (simp only: shear_sample_def p sa) (simp add: mk_def)
  have m: "moment_sample ?s 0 = (Fin 0, NaN)"
    by (simp only: moment_sample_def p ma) (simp add: mk_def)
  have n: "(0::nat) < numPoints" "(1::nat) < numPoints"
    by (simp_all add: numPoints_def)
  show ?thesis
    by (simp only: r shearForceData_nth [OF n(2)] bendingMomentData_nth [OF n(1)] s m)
qed

section \<open>The I-beam section\<close>

text \<open>
  What the \<open>I Beam\<close> branch computes for finite positive dimensions: twice \<open>I_flange\<close>
  plus \<open>I_web\<close>, and the section modulus as that inertia over half the height.
\<close>

lemma i_beam_inertia_computed:
  assumes s: "beamCrossSection st = ''I Beam''"
    and f: "is_fin (flangeWidth st)" "is_fin (flangeThickness st)" "is_fin (webThickness st)"
      "is_fin (height st)"
    and p: "0 < val (flangeWidth st)" "0 < val (flangeThickness st)" "0 < val (webThickness st)"
      "0 < val (height st)" "0 < val (height st) - 2 * val (flangeThickness st)"
  shows "is_fin (momentOfInertia_of st) \<and> is_fin (sectionModulus_of st) \<and>
    val (momentOfInertia_of st) =
      2 * (val (flangeWidthM st) * val (flangeThicknessM st) ^ 3 / 6 +
           2 * val (flangeWidthM st) * val (flangeThicknessM st) *
             ((val (heightM st) - val (flangeThicknessM st)) / 2) ^ 2) +
      val (webThicknessM st) * (val (heightM st) - 2 * val (flangeThicknessM st)) ^ 3 / 12 \<and>
    val (sectionModulus_of st) = val (momentOfInertia_of st) / (val (heightM st) / 2)"
proof -
  have m: "is_fin (flangeWidthM st)" "is_fin (flangeThicknessM st)" "is_fin (webThicknessM st)"
    "is_fin (heightM st)"
    using f by (simp_all add: state_defs is_fin_mm)
  have h: "val (heightM st) \<noteq> 0"
    using f(4) p(4) by (simp add: heightM_def val_mm)
  have fl: "is_fin (I_flange st)"
    using m by (simp add: I_flange_def fin_simps)
  have vfl: "val (I_flange st) =
      val (flangeWidthM st) * val (flangeThicknessM st) ^ 3 / 6 +
      2 * val (flangeWidthM st) * val (flangeThicknessM st) *
        ((val (heightM st) - val (flangeThicknessM st)) / 2) ^ 2"
    using m by (simp add: I_flange_def fin_simps)
  have w: "is_fin (I_web st)"
    using m by (simp add: I_web_def fin_simps)
  have vw: "val (I_web st) =
      val (webThicknessM st) * (val (heightM st) - 2 * val (flangeThicknessM st)) ^ 3 / 12"
    using m by (simp add: I_web_def fin_simps)
  have i: "momentOfInertia_of st = js_add (js_mul (Fin 2) (I_flange st)) (I_web st)"
    using s by (simp add: momentOfInertia_of_def)
  have fi: "is_fin (momentOfInertia_of st)"
    unfolding i using fl w by (simp add: fin_simps)
  have vi: "val (momentOfInertia_of st) = 2 * val (I_flange st) + val (I_web st)"
    unfolding i using fl w by (simp add: fin_simps)
  have z: "sectionModulus_of st = js_div (momentOfInertia_of st) (js_div (heightM st) (Fin 2))"
    using s by (simp add: sectionModulus_of_def)
  have h2: "is_fin (js_div (heightM st) (Fin 2))"
    using m(4) by (simp add: is_fin_div)
  have h2v: "val (js_div (heightM st) (Fin 2)) = val (heightM st) / 2"
    using m(4) by (simp add: val_div)
  have h2n: "val (js_div (heightM st) (Fin 2)) \<noteq> 0"
    unfolding h2v using h by simp
  have fz: "is_fin (sectionModulus_of st)"
    unfolding z using fi h2 h2n by (rule is_fin_div)
  have "val (sectionModulus_of st) =
      val (momentOfInertia_of st) / val (js_div (heightM st) (Fin 2))"
    unfolding z using fi h2 h2n by (rule val_div)
  then have vz: "val (sectionModulus_of st) = val (momentOfInertia_of st) / (val (heightM st) / 2)"
    unfolding h2v .
  from fi fz vz show ?thesis unfolding vi vfl vw by simp
qed

text \<open>
  The local \<open>I_flange\<close> of the \<open>I Beam\<close> branch is already the contribution of both
  flanges: it is twice the \<open>I_flange_c\<close> of one flange in the \<open>C Channel\<close> branch. Both
  branches then multiply their local by 2.
\<close>

lemma I_flange_is_both_flanges:
  assumes "is_fin (flangeWidth st)" and "is_fin (flangeThickness st)" and "is_fin (height st)"
  shows "val (I_flange st) = 2 * val (I_flange_c st)"
proof -
  have m: "is_fin (flangeWidthM st)" "is_fin (flangeThicknessM st)" "is_fin (heightM st)"
    using assms by (simp_all add: state_defs is_fin_mm)
  have a: "val (I_flange st) =
      val (flangeWidthM st) * val (flangeThicknessM st) ^ 3 / 6 +
      2 * val (flangeWidthM st) * val (flangeThicknessM st) *
        ((val (heightM st) - val (flangeThicknessM st)) / 2) ^ 2"
    using m by (simp add: I_flange_def fin_simps)
  have b: "val (I_flange_c st) =
      val (flangeWidthM st) * val (flangeThicknessM st) ^ 3 / 12 +
      val (flangeWidthM st) * val (flangeThicknessM st) *
        ((val (heightM st) - val (flangeThicknessM st)) / 2) ^ 2"
    using m by (simp add: I_flange_c_def fin_simps)
  show ?thesis unfolding a b by (simp add: algebra_simps)
qed

text \<open>
  Claim C5 at the initial dimensions (flange 100 by 10, web 6, height 200 millimetres)
  taken as an I-beam. The claim's formula, two flanges each with its own term and its
  parallel-axis term, gives \<open>31499/1500000000\<close>, about \<open>2.100e-5\<close>. The code computes
  \<open>29287/750000000\<close>, about \<open>3.905e-5\<close>: \<open>I_flange\<close> is \<open>9.033e-6\<close> times 2, both flanges
  at once, and the inertia doubles it a second time. The \<open>C Channel\<close> branch, whose
  flanges and web are the same, computes \<open>15737/750000000\<close>, about \<open>2.098e-5\<close>.
\<close>

theorem C5_i_beam_flanges_counted_twice:
  "val (momentOfInertia_of (initial_state\<lparr>beamCrossSection := ''I Beam''\<rparr>)) =
     29287 / 750000000 \<and>
   2 * (val (flangeWidthM (initial_state\<lparr>beamCrossSection := ''I Beam''\<rparr>)) *
          val (flangeThicknessM (initial_state\<lparr>beamCrossSection := ''I Beam''\<rparr>)) ^ 3 / 6 +
        val (flangeWidthM (initial_state\<lparr>beamCrossSection := ''I Beam''\<rparr>)) *
          val (flangeThicknessM (initial_state\<lparr>beamCrossSection := ''I Beam''\<rparr>)) *
          ((val (heightM (initial_state\<lparr>beamCrossSection := ''I Beam''\<rparr>)) -
            val (flangeThicknessM (initial_state\<lparr>beamCrossSection := ''I Beam''\<rparr>))) / 2) ^ 2) +
   val (webThicknessM (initial_state\<lparr>beamCrossSection := ''I Beam''\<rparr>)) *
     (val (heightM (initial_state\<lparr>beamCrossSection := ''I Beam''\<rparr>)) -
      2 * val (flangeThicknessM (initial_state\<lparr>beamCrossSection := ''I Beam''\<rparr>))) ^ 3 / 12 =
     31499 / 1500000000 \<and>
   val (I_flange (initial_state\<lparr>beamCrossSection := ''I Beam''\<rparr>)) =
     2 * val (I_flange_c (initial_state\<lparr>beamCrossSection := ''I Beam''\<rparr>)) \<and>
   val (momentOfInertia_of (initial_state\<lparr>beamCrossSection := ''C Channel''\<rparr>)) =
     15737 / 750000000 \<and>
   momentOfInertia (calculateResults (initial_state\<lparr>beamCrossSection := ''I Beam''\<rparr>)) =
     Fin (39 / 1000000)"
proof -
  let ?s = "initial_state\<lparr>beamCrossSection := ''I Beam''\<rparr>"
  let ?c = "initial_state\<lparr>beamCrossSection := ''C Channel''\<rparr>"
  have m: "val (flangeWidthM ?s) = 1 / 10" "val (flangeThicknessM ?s) = 1 / 100"
    "val (webThicknessM ?s) = 3 / 500" "val (heightM ?s) = 1 / 5"
    by (simp_all add: state_defs js_defs)
  have i: "momentOfInertia_of ?s = Fin (29287 / 750000000)"
    by (simp add: momentOfInertia_of_def I_flange_def I_web_def state_defs js_defs
        eval_nat_numeral)
  have f: "val (I_flange ?s) = 2 * val (I_flange_c ?s)"
    by (simp add: I_flange_def I_flange_c_def state_defs js_defs eval_nat_numeral)
  have c: "val (momentOfInertia_of ?c) = 15737 / 750000000"
    by (simp add: momentOfInertia_of_def I_flange_c_def I_web_c_def state_defs js_defs
        eval_nat_numeral)
  have r: "momentOfInertia (calculateResults ?s) = Fin (39 / 1000000)"
    by (simp add: calculateResults_def i mk_def)
  have g: "2 * ((1 / 10) * (1 / 100) ^ 3 / 6 + (1 / 10) * (1 / 100) * ((1 / 5 - 1 / 100) / 2) ^ 2) +
           (3 / 500) * (1 / 5 - 2 * (1 / 100)) ^ 3 / 12 = (31499 / 1500000000 :: real)"
    by (simp add: power2_eq_square power3_eq_cube)
  show ?thesis unfolding m f c r i using g f by simp
qed

section \<open>The cantilever with a load at its free end\<close>

text \<open>
  Claim C4 at the cells of a cantilever of length 1000 with a point load of 1000 at
  position 1000. The product of magnitude and length is 1000000 (1000 with the length
  in metres), while \<open>calculateResults\<close> stores 0 as \<open>maxBendingMoment\<close>, and every
  moment that \<open>calculateDiagrams\<close> stores is 0 as well.
\<close>

theorem C4_free_end_load_moment_is_zero:
  "maxBendingMoment (calculateResults
      (initial_state\<lparr>beamType := ''Cantilever Beam'', loadStartPosition := Fin 1000\<rparr>)) = Fin 0 \<and>
   js_mul (loadMagnitude (initial_state\<lparr>beamType := ''Cantilever Beam'', loadStartPosition := Fin 1000\<rparr>))
          (beamLength (initial_state\<lparr>beamType := ''Cantilever Beam'', loadStartPosition := Fin 1000\<rparr>))
     = Fin 1000000 \<and>
   js_mul (loadMagnitude (initial_state\<lparr>beamType := ''Cantilever Beam'', loadStartPosition := Fin 1000\<rparr>))
          (beamLengthM (initial_state\<lparr>beamType := ''Cantilever Beam'', loadStartPosition := Fin 1000\<rparr>))
     = Fin 1000 \<and>
   map snd (bendingMomentData
      (initial_state\<lparr>beamType := ''Cantilever Beam'', loadStartPosition := Fin 1000\<rparr>)) =
     replicate 100 (Fin 0)"
proof -
  let ?s = "initial_state\<lparr>beamType := ''Cantilever Beam'', loadStartPosition := Fin 1000\<rparr>"
  have a: "maxBendingMoment (calculateResults ?s) = Fin 0"
    by (simp add: calculateResults_def maxBendingMoment_of_def mk_def)
  have b: "js_mul (loadMagnitude ?s) (beamLength ?s) = Fin 1000000"
    by (simp add: initial_state_def js_defs)
  have m: "moment_at ?s x = NegZero \<or> moment_at ?s x = Fin 0" for x
    by (simp add: moment_at_def initial_state_def js_defs)
  have t: "snd (moment_sample ?s i) = Fin 0" for i
    using m [of "position_at ?s i"] by (auto simp: moment_sample_def mk_def)
  have "map snd (bendingMomentData ?s) = map (\<lambda>i. Fin 0) [0..<numPoints]"
    by (simp add: bendingMomentData_eq t)
  then have c: "map snd (bendingMomentData ?s) = replicate 100 (Fin 0)"
    by (simp add: map_replicate_const numPoints_def)
  have b': "js_mul (loadMagnitude ?s) (beamLengthM ?s) = Fin 1000"
    by (simp add: state_defs js_defs)
  from a b b' c show ?thesis by simp
qed


end
